theory Spec2Isabelle
  imports Complex_Main "HOL-Library.Char_ord" "HOL-Library.List_Lexorder" "HOL-Library.Multiset"
begin

section \<open>Text rendering\<close>

text \<open>
  The f-strings of \<^verbatim>\<open>vector.py\<close> render integers and floats with Python's \<^verbatim>\<open>str\<close>.
  An integer renders as its decimal digits, with a leading minus sign when negative.
\<close>

definition digit_char :: "nat \<Rightarrow> char" where
  "digit_char d = ''0123456789'' ! d"

fun str_nat :: "nat \<Rightarrow> string" where
  "str_nat n = (if n < 10 then [digit_char n] else str_nat (n div 10) @ [digit_char (n mod 10)])"

declare str_nat.simps [simp del]

definition str_int :: "int \<Rightarrow> string" where
  "str_int i = (if i < 0 then CHR ''-'' # str_nat (nat (- i)) else str_nat (nat i))"

text \<open>
  A float64 renders as the shortest decimal text that reads back as the same float. For a
  value with at most 15 significant decimal digits and a magnitude from 1e-4 up to (not
  including) 1e16 this is the value's own decimal expansion with at least one digit after
  the point (\<^verbatim>\<open>4.5\<close>, \<^verbatim>\<open>3.0\<close>, \<^verbatim>\<open>1990.0\<close>); ratings, years and counts are
  in that range, and the model renders the expansion. NaN renders as \<^verbatim>\<open>nan\<close>.
\<close>

fun frac_digits :: "nat \<Rightarrow> rat \<Rightarrow> string" where
  "frac_digits 0 f = []"
| "frac_digits (Suc k) f =
     (if f = 0 then []
      else let d = \<lfloor>f * 10\<rfloor> in digit_char (nat d) # frac_digits k (f * 10 - of_int d))"

definition str_float :: "rat \<Rightarrow> string" where
  "str_float x =
     (let a = \<bar>x\<bar>; n = \<lfloor>a\<rfloor>; ds = frac_digits 17 (a - of_int n)
      in (if x < 0 then ''-'' else '''') @ str_nat (nat n) @ ''.'' @ (if ds = [] then ''0'' else ds))"

text \<open>\<^verbatim>\<open>sep.join(parts)\<close>.\<close>

fun join :: "string \<Rightarrow> string list \<Rightarrow> string" where
  "join sep [] = []"
| "join sep [x] = x"
| "join sep (x # y # ys) = x @ sep @ join sep (y # ys)"

text \<open>
  \<^verbatim>\<open>str.strip()\<close> removes leading and trailing whitespace; the whitespace characters
  below are those of Python's \<^verbatim>\<open>str.isspace\<close> among the first 256 code points.
\<close>

definition isspace :: "char \<Rightarrow> bool" where
  "isspace c = (c \<in> set [CHR 0x09, CHR 0x0A, CHR 0x0B, CHR 0x0C, CHR 0x0D, CHR 0x1C, CHR 0x1D,
                          CHR 0x1E, CHR 0x1F, CHR 0x20, CHR 0x85, CHR 0xA0])"

definition strip :: "string \<Rightarrow> string" where
  "strip s = rev (dropWhile isspace (rev (dropWhile isspace s)))"


section \<open>Step 1: loading the JSONL file into a frame\<close>

text \<open>
  A line of \<^verbatim>\<open>books.jsonl\<close> is one JSON object with the fields \<^verbatim>\<open>id\<close>,
  \<^verbatim>\<open>title\<close>, \<^verbatim>\<open>authors\<close>, \<^verbatim>\<open>publication_year\<close>, \<^verbatim>\<open>average_rating\<close>,
  \<^verbatim>\<open>ratings_count\<close> and \<^verbatim>\<open>image_url\<close>. The three numeric fields may hold a number,
  \<^verbatim>\<open>null\<close>, or text that \<^verbatim>\<open>pd.to_numeric\<close> cannot read (a numeric text such as
  \<^verbatim>\<open>"1990"\<close> is read as the number and is modelled as \<open>Num\<close>). The identifier is an
  integer, the year and the ratings count are integers, the rating is a decimal number.
\<close>

datatype 'a cell = Null | Num 'a | Unparsable string

record raw_row =
  raw_id :: int
  raw_title :: string
  raw_authors :: "string list"
  raw_publication_year :: "int cell"
  raw_average_rating :: "rat cell"
  raw_ratings_count :: "int cell"
  raw_image_url :: string

text \<open>
  A row of the frame returned by \<^verbatim>\<open>load_jsonl_to_df\<close>. A missing numeric value (NaN)
  is \<open>None\<close>.
\<close>

record row =
  row_id :: int
  title :: string
  authors :: "string list"
  publication_year :: "int option"
  average_rating :: "rat option"
  ratings_count :: "int option"
  image_url :: string
  decade :: "int option"

datatype error = ValueError | KeyError | IndexError

text \<open>\<^verbatim>\<open>pd.to_numeric(column, errors="coerce")\<close>, cell by cell.\<close>

fun to_numeric :: "'a cell \<Rightarrow> 'a option" where
  "to_numeric Null = None"
| "to_numeric (Num x) = Some x"
| "to_numeric (Unparsable s) = None"

text \<open>
  Lines 45 to 52: the column coercions and the derived decade,
  \<^verbatim>\<open>(df["publication_year"] // 10) * 10\<close>; floor division of NaN is NaN.
\<close>

definition normalize_row :: "raw_row \<Rightarrow> row" where
  "normalize_row r =
     (let year = to_numeric (raw_publication_year r)
      in \<lparr> row_id = raw_id r,
           title = raw_title r,
           authors = raw_authors r,
           publication_year = year,
           average_rating = to_numeric (raw_average_rating r),
           ratings_count = to_numeric (raw_ratings_count r),
           image_url = raw_image_url r,
           decade = map_option (\<lambda>y. (y div 10) * 10) year \<rparr>)"

text \<open>
  The file is its sequence of lines; a blank line is \<open>None\<close> and is skipped by the JSON
  reader. Every line is read on its own: the type inference that the reader runs on each
  frame it builds is not modelled, the fields have the types given above. With \<^verbatim>\<open>chunksize=n\<close> the reader yields one frame for every \<open>n\<close> lines read
  (none for an empty file), and \<^verbatim>\<open>pd.concat\<close> raises \<^verbatim>\<open>ValueError\<close> on an empty list
  of frames. A frame without rows has no columns, so \<^verbatim>\<open>df["title"]\<close> raises
  \<^verbatim>\<open>KeyError\<close>.
\<close>

type_synonym jsonl_file = "raw_row option list"

function chunks :: "nat \<Rightarrow> 'a list \<Rightarrow> 'a list list" where
  "chunks n xs = (if n = 0 \<or> xs = [] then [] else take n xs # chunks n (drop n xs))"
  by pat_completeness auto
termination
  by (relation "measure (\<lambda>(n, xs). length xs)") auto

declare chunks.simps [simp del]

definition parse_lines :: "raw_row option list \<Rightarrow> raw_row list" where
  "parse_lines ls = [r. Some r \<leftarrow> ls]"

definition read_json :: "jsonl_file \<Rightarrow> raw_row list" where
  "read_json f = parse_lines f"

definition read_json_chunked :: "nat \<Rightarrow> jsonl_file \<Rightarrow> raw_row list list" where
  "read_json_chunked n f = map parse_lines (chunks n f)"

definition pd_concat :: "'a list list \<Rightarrow> error + 'a list" where
  "pd_concat dfs = (if dfs = [] then Inl ValueError else Inr (concat dfs))"

definition load_jsonl_to_df :: "jsonl_file \<Rightarrow> nat option \<Rightarrow> error + row list" where
  "load_jsonl_to_df filePath chunkSize =
     (case (case chunkSize of
              Some n \<Rightarrow> if n \<noteq> 0 then pd_concat (read_json_chunked n filePath)
                        else Inr (read_json filePath)
            | None \<Rightarrow> Inr (read_json filePath)) of
        Inl e \<Rightarrow> Inl e
      | Inr df \<Rightarrow> if df = [] then Inl KeyError else Inr (map normalize_row df))"


section \<open>Frame operations\<close>

text \<open>
  \<^verbatim>\<open>DataFrame.sort_values(by=col, ascending=...)\<close> on one column: the rows whose key is
  NaN are set aside and appended last, in their original order
  (\<^verbatim>\<open>na_position="last"\<close>). The other rows are sorted by key; for a descending sort
  pandas reverses the rows, sorts them ascending and reverses the result. The script passes
  no \<^verbatim>\<open>kind\<close>, and the default sort of numpy promises no order among equal keys; the
  model takes the order of a stable sort, here the insertion sort \<open>sort_key\<close>, so rows
  with equal keys keep their input order in both directions. The key is read with \<open>the\<close>
  only on rows where it is present.
\<close>

definition sort_values :: "('r \<Rightarrow> 'k::linorder option) \<Rightarrow> bool \<Rightarrow> 'r list \<Rightarrow> 'r list" where
  "sort_values col ascending df =
     (let non_nans = filter (\<lambda>r. col r \<noteq> None) df;
          nans = filter (\<lambda>r. col r = None) df
      in (if ascending then sort_key (\<lambda>r. the (col r)) non_nans
          else rev (sort_key (\<lambda>r. the (col r)) (rev non_nans))) @ nans)"

text \<open>
  \<^verbatim>\<open>groupby(col).size().reset_index(name="Count")\<close>: one row per distinct key that is
  present, in ascending key order, with the number of rows holding that key. Rows whose key
  is missing belong to no group.
\<close>

definition groupby_size :: "'k::linorder option list \<Rightarrow> ('k \<times> nat) list" where
  "groupby_size col =
     (let keys = [k. Some k \<leftarrow> col]
      in map (\<lambda>k. (k, count_list keys k)) (sort (remdups keys)))"

text \<open>
  \<^verbatim>\<open>df.explode("authors")\<close>: one row per element of the author list; a row whose list
  is empty stays as one row with a missing author.
\<close>

definition explode :: "row list \<Rightarrow> (row \<times> string option) list" where
  "explode df =
     concat (map (\<lambda>r. if authors r = [] then [(r, None)]
                       else map (\<lambda>a. (r, Some a)) (authors r)) df)"

text \<open>
  A numeric column is held as int64 when every value is present and integral, and as
  float64 otherwise. A value read from a row renders according to the dtype of its column.
\<close>

definition int_col_is_float :: "int option list \<Rightarrow> bool" where
  "int_col_is_float col = (\<exists>c \<in> set col. c = None)"

definition rat_col_is_float :: "rat option list \<Rightarrow> bool" where
  "rat_col_is_float col =
     (\<exists>c \<in> set col. case c of None \<Rightarrow> True | Some x \<Rightarrow> of_int \<lfloor>x\<rfloor> \<noteq> x)"

definition str_int_cell :: "bool \<Rightarrow> int option \<Rightarrow> string" where
  "str_int_cell is_float c =
     (case c of None \<Rightarrow> ''nan''
      | Some n \<Rightarrow> if is_float then str_float (of_int n) else str_int n)"

definition str_rat_cell :: "bool \<Rightarrow> rat option \<Rightarrow> string" where
  "str_rat_cell is_float c =
     (case c of None \<Rightarrow> ''nan''
      | Some x \<Rightarrow> if is_float then str_float x else str_int \<lfloor>x\<rfloor>)"


section \<open>Step 3: the documents\<close>

text \<open>
  A LangChain \<^verbatim>\<open>Document\<close> has a text, a metadata dictionary and an identifier. The
  dictionary's \<^verbatim>\<open>type\<close> entry selects one of four shapes. \<^verbatim>\<open>float(x)\<close> of a
  missing value is the float NaN.
\<close>

datatype pyfloat = NaN | Float rat

datatype metadata =
    Book int string "string list" "int option" "int option" "rat option" "int option" string
  | AuthorAggregate string nat
  | DecadeAggregate int nat
  | TopRated string "string list" pyfloat int

record document =
  page_content :: string
  metadata :: metadata
  doc_id :: string

definition year_str :: "row list \<Rightarrow> row \<Rightarrow> string" where
  "year_str df r = str_int_cell (int_col_is_float (map publication_year df)) (publication_year r)"

definition rating_str :: "row list \<Rightarrow> row \<Rightarrow> string" where
  "rating_str df r = str_rat_cell (rat_col_is_float (map average_rating df)) (average_rating r)"

definition count_str :: "row list \<Rightarrow> row \<Rightarrow> string" where
  "count_str df r = str_int_cell (int_col_is_float (map ratings_count df)) (ratings_count r)"

text \<open>3.1 Row-level documents, lines 80 to 100.\<close>

definition book_doc :: "row list \<Rightarrow> row \<Rightarrow> document" where
  "book_doc df r =
     \<lparr> page_content =
         ''Book: '' @ title r @ '' by '' @ join '', '' (authors r) @ ''. '' @
         ''Published in '' @ year_str df r @ '', '' @
         ''average rating '' @ rating_str df r @ '' from '' @ count_str df r @ '' ratings.'',
       metadata = Book (row_id r) (title r) (authors r) (publication_year r) (decade r)
                    (average_rating r) (ratings_count r) (image_url r),
       doc_id = str_int (row_id r) \<rparr>"

definition book_docs :: "row list \<Rightarrow> document list" where
  "book_docs df = map (book_doc df) df"

text \<open>3.2 Author-level summaries, lines 71 to 72 and 104 to 117.\<close>

definition df_exploded :: "row list \<Rightarrow> (row \<times> string option) list" where
  "df_exploded df = map (\<lambda>(r, a). (r, map_option strip a)) (explode df)"

definition books_by_author :: "row list \<Rightarrow> (string \<times> nat) list" where
  "books_by_author df =
     sort_values (\<lambda>(a, c). Some c) False (groupby_size (map snd (df_exploded df)))"

definition aggDoc :: "string \<times> nat \<Rightarrow> document" where
  "aggDoc g = (case g of (a, c) \<Rightarrow>
     \<lparr> page_content = ''Author '' @ a @ '' has '' @ str_nat c @ '' books in the dataset.'',
       metadata = AuthorAggregate a c,
       doc_id = ''Author-'' @ a \<rparr>)"

definition author_docs :: "row list \<Rightarrow> document list" where
  "author_docs df = map aggDoc (books_by_author df)"

text \<open>
  3.3 Decade-level summaries, lines 121 to 134. The frame \<^verbatim>\<open>books_by_decade\<close> has the
  columns \<^verbatim>\<open>decade\<close> and \<^verbatim>\<open>Count\<close>; when the decade column is float64, a row read by
  \<^verbatim>\<open>iterrows\<close> is a float64 series, so both values render as floats.
\<close>

definition books_by_decade :: "row list \<Rightarrow> (int \<times> nat) list" where
  "books_by_decade df = sort_values (\<lambda>(d, c). Some d) True (groupby_size (map decade df))"

definition decade_doc :: "bool \<Rightarrow> int \<times> nat \<Rightarrow> document" where
  "decade_doc is_float g = (case g of (d, c) \<Rightarrow>
     \<lparr> page_content =
         ''In the '' @ str_int d @ ''s, '' @
         (if is_float then str_float (of_nat c) else str_nat c) @ '' books were published.'',
       metadata = DecadeAggregate d c,
       doc_id = ''Decade-'' @ (if is_float then str_float (of_int d) else str_int d) \<rparr>)"

definition decade_docs :: "row list \<Rightarrow> document list" where
  "decade_docs df = map (decade_doc (int_col_is_float (map decade df))) (books_by_decade df)"

text \<open>
  3.4 Top-rated books, lines 138 to 154. \<^verbatim>\<open>int(x)\<close> of a NaN raises
  \<^verbatim>\<open>ValueError\<close>; the exception ends the script.
\<close>

definition top_books :: "row list \<Rightarrow> row list" where
  "top_books df = take 50 (sort_values average_rating False df)"

definition py_float :: "rat option \<Rightarrow> pyfloat" where
  "py_float c = (case c of None \<Rightarrow> NaN | Some x \<Rightarrow> Float x)"

definition py_int :: "int option \<Rightarrow> error + int" where
  "py_int c = (case c of None \<Rightarrow> Inl ValueError | Some n \<Rightarrow> Inr n)"

definition rating_doc :: "row list \<Rightarrow> row \<Rightarrow> error + document" where
  "rating_doc df r =
     (case py_int (ratings_count r) of
        Inl e \<Rightarrow> Inl e
      | Inr n \<Rightarrow> Inr
         \<lparr> page_content =
             ''Highly rated book: '' @ title r @ '' by '' @ join '', '' (authors r) @ '', '' @
             ''average rating '' @ rating_str df r @ '' from '' @ count_str df r @ '' ratings.'',
           metadata = TopRated (title r) (authors r) (py_float (average_rating r)) n,
           doc_id = ''TopRated-'' @ str_int (row_id r) \<rparr>)"

fun for_each :: "('a \<Rightarrow> error + 'b) \<Rightarrow> 'a list \<Rightarrow> error + 'b list" where
  "for_each f [] = Inr []"
| "for_each f (x # xs) =
     (case f x of
        Inl e \<Rightarrow> Inl e
      | Inr y \<Rightarrow> (case for_each f xs of Inl e \<Rightarrow> Inl e | Inr ys \<Rightarrow> Inr (y # ys)))"

definition top_rated_docs :: "row list \<Rightarrow> error + document list" where
  "top_rated_docs df = for_each (rating_doc df) (top_books df)"

text \<open>The list \<^verbatim>\<open>documents\<close> after the four passes have appended to it.\<close>

definition documents :: "row list \<Rightarrow> error + document list" where
  "documents df =
     (case top_rated_docs df of
        Inl e \<Rightarrow> Inl e
      | Inr rating_docs \<Rightarrow> Inr (book_docs df @ author_docs df @ decade_docs df @ rating_docs))"


section \<open>Step 4: building or loading the vector store\<close>







section \<open>Reading documents and example inputs\<close>

text \<open>The \<^verbatim>\<open>type\<close> entry of a document's metadata.\<close>

definition doc_type :: "document \<Rightarrow> string" where
  "doc_type d =
     (case metadata d of
        Book i t a y dc r c u \<Rightarrow> ''Book''
      | AuthorAggregate a c \<Rightarrow> ''AuthorAggregate''
      | DecadeAggregate dc c \<Rightarrow> ''DecadeAggregate''
      | TopRated t a r c \<Rightarrow> ''TopRated'')"

text \<open>The \<^verbatim>\<open>Count\<close> entry of an aggregate document's metadata; other documents have none.\<close>

definition doc_count :: "document \<Rightarrow> nat option" where
  "doc_count d =
     (case metadata d of
        AuthorAggregate a c \<Rightarrow> Some c
      | DecadeAggregate dc c \<Rightarrow> Some c
      | _ \<Rightarrow> None)"

definition total_count :: "document list \<Rightarrow> nat" where
  "total_count ds = sum_list [c. Some c \<leftarrow> map doc_count ds]"


text \<open>The two records of the scenario, as lines of the input file.\<close>

definition scenario_A :: raw_row where
  "scenario_A =
     \<lparr> raw_id = 1, raw_title = ''A'', raw_authors = [''X''], raw_publication_year = Num 1990,
       raw_average_rating = Num (9 / 2), raw_ratings_count = Num 10, raw_image_url = '''' \<rparr>"

definition scenario_B :: raw_row where
  "scenario_B =
     \<lparr> raw_id = 2, raw_title = ''B'', raw_authors = [''X'', ''Y''], raw_publication_year = Num 1990,
       raw_average_rating = Num 3, raw_ratings_count = Num 5, raw_image_url = '''' \<rparr>"

definition scenario :: jsonl_file where
  "scenario = [Some scenario_A, Some scenario_B]"


section \<open>Rendering of numbers\<close>





lemma str_nat_nonempty: "str_nat n \<noteq> []"
  by (subst str_nat.simps) simp





lemma str_int_nonempty: "str_int i \<noteq> []"
  by (simp add: str_int_def str_nat_nonempty)


lemma frac_digits_zero: "frac_digits k 0 = []"
  by (cases k) simp_all

lemma str_float_of_int: "str_float (of_int d) = str_int d @ ''.0''"
  by (simp add: str_float_def str_int_def Let_def frac_digits_zero flip: of_int_abs)

lemma str_float_of_nat: "str_float (of_nat c) = str_nat c @ ''.0''"
  using str_float_of_int [of "int c"] by (simp add: str_int_def)


section \<open>Reading in batches\<close>

lemma concat_chunks: "0 < n \<Longrightarrow> concat (chunks n xs) = xs"
proof (induction n xs rule: chunks.induct)
  case (1 n xs)
  then show ?case by (subst chunks.simps) auto
qed


lemma parse_lines_concat: "parse_lines (concat xss) = concat (map parse_lines xss)"
  by (induction xss) (simp_all add: parse_lines_def)

lemma read_json_chunked_concat: "0 < n \<Longrightarrow> concat (read_json_chunked n f) = read_json f"
  by (simp add: read_json_chunked_def read_json_def concat_chunks flip: parse_lines_concat)


section \<open>Grouping and sorting\<close>

lemma somes_filter: "length [k. Some k \<leftarrow> col] = length (filter (\<lambda>c. c \<noteq> None) col)"
  by (induction col) (auto split: option.splits)

lemma somes_count: "count_list [k. Some k \<leftarrow> col] k = length (filter (\<lambda>c. c = Some k) col)"
  by (induction col) (auto split: option.splits)



lemma groupby_size_count:
  "(k, c) \<in> set (groupby_size col) \<Longrightarrow> c = length (filter (\<lambda>x. x = Some k) col) \<and> 0 < c"
proof -
  assume a: "(k, c) \<in> set (groupby_size col)"
  then have c: "c = count_list [k. Some k \<leftarrow> col] k" and k: "k \<in> set [k. Some k \<leftarrow> col]"
    by (auto simp: groupby_size_def Let_def)
  from k have "count_list [k. Some k \<leftarrow> col] k \<noteq> 0" by (simp add: count_list_0_iff)
  with c show ?thesis by (simp add: somes_count)
qed

lemma sum_count_list_distinct_keys:
  "sum_list (map (count_list ks) (sort (remdups ks))) = length ks"
proof -
  have "sum_list (map (count_list ks) (sort (remdups ks))) = sum (count_list ks) (set (sort (remdups ks)))"
    by (rule sum_list_distinct_conv_sum_set) simp
  also have "\<dots> = length ks"
    by (rule sum_count_set) simp_all
  finally show ?thesis .
qed

lemma groupby_size_sum:
  "sum_list (map snd (groupby_size col)) = length (filter (\<lambda>c. c \<noteq> None) col)"
proof -
  let ?ks = "[k. Some k \<leftarrow> col]"
  have "sum_list (map snd (groupby_size col)) = sum_list (map (count_list ?ks) (sort (remdups ?ks)))"
    by (simp add: groupby_size_def Let_def comp_def)
  also have "\<dots> = length ?ks"
    by (rule sum_count_list_distinct_keys)
  finally show ?thesis by (simp add: somes_filter)
qed

lemma mset_sort_values: "mset (sort_values col asc df) = mset df"
proof -
  have "mset (filter (\<lambda>r. col r \<noteq> None) df) + mset (filter (\<lambda>r. col r = None) df) = mset df"
    by (induction df) auto
  then show ?thesis by (simp add: sort_values_def Let_def)
qed

lemma set_sort_values: "set (sort_values col asc df) = set df"
  by (metis mset_sort_values set_mset_mset)



lemma sum_list_map_sort_values:
  "sum_list (map f (sort_values col asc df)) = (sum_list (map f df) :: nat)"
proof -
  have "mset (map f (sort_values col asc df)) = mset (map f df)"
    by (simp add: mset_sort_values)
  then show ?thesis by (metis sum_mset_sum_list)
qed






section \<open>The top-rated pass\<close>

lemma for_each_Inr: "for_each f xs = Inr ys \<Longrightarrow> map f xs = map Inr ys"
  by (induction xs arbitrary: ys) (auto split: sum.splits)


lemma for_each_Inl: "for_each f xs = Inl e \<Longrightarrow> \<exists>x\<in>set xs. f x = Inl e"
  by (induction xs) (auto split: sum.splits)

lemma rating_doc_Inr:
  "rating_doc df r = Inr d \<Longrightarrow>
     doc_id d = ''TopRated-'' @ str_int (row_id r) \<and> doc_type d = ''TopRated'' \<and>
     doc_count d = None \<and> ratings_count r \<noteq> None"
  by (auto simp: rating_doc_def py_int_def doc_type_def doc_count_def split: option.splits)

lemma rating_doc_Inl: "rating_doc df r = Inl e \<Longrightarrow> e = ValueError \<and> ratings_count r = None"
  by (auto simp: rating_doc_def py_int_def split: option.splits)

lemma for_each_map:
  "for_each f xs = Inr ys \<Longrightarrow> (\<And>x y. f x = Inr y \<Longrightarrow> g y = h x) \<Longrightarrow> map g ys = map h xs"
  by (induction xs arbitrary: ys) (auto split: sum.splits)

lemma for_each_results:
  "for_each f xs = Inr ys \<Longrightarrow> (\<And>x y. f x = Inr y \<Longrightarrow> P y) \<Longrightarrow> \<forall>y\<in>set ys. P y"
  by (induction xs arbitrary: ys) (auto split: sum.splits)

lemma for_each_inputs:
  "for_each f xs = Inr ys \<Longrightarrow> (\<And>x y. f x = Inr y \<Longrightarrow> Q x) \<Longrightarrow> \<forall>x\<in>set xs. Q x"
  by (induction xs arbitrary: ys) (auto split: sum.splits)

lemma top_rated_docs_Inr:
  assumes "top_rated_docs df = Inr ds"
  shows "map doc_id ds = map (\<lambda>r. ''TopRated-'' @ str_int (row_id r)) (top_books df)"
    and "\<forall>d\<in>set ds. doc_type d = ''TopRated''"
    and "\<forall>d\<in>set ds. doc_count d = None"
    and "\<forall>r\<in>set (top_books df). ratings_count r \<noteq> None"
proof -
  from assms have m: "for_each (rating_doc df) (top_books df) = Inr ds"
    by (simp add: top_rated_docs_def)
  show "map doc_id ds = map (\<lambda>r. ''TopRated-'' @ str_int (row_id r)) (top_books df)"
    using m by (rule for_each_map) (simp add: rating_doc_Inr)
  show "\<forall>d\<in>set ds. doc_type d = ''TopRated''"
    using m by (rule for_each_results) (simp add: rating_doc_Inr)
  show "\<forall>d\<in>set ds. doc_count d = None"
    using m by (rule for_each_results) (simp add: rating_doc_Inr)
  show "\<forall>r\<in>set (top_books df). ratings_count r \<noteq> None"
    using m by (rule for_each_inputs) (simp add: rating_doc_Inr)
qed


lemma top_rated_docs_Inl:
  "top_rated_docs df = Inl e \<Longrightarrow> e = ValueError \<and> (\<exists>r\<in>set (top_books df). ratings_count r = None)"
  unfolding top_rated_docs_def by (metis for_each_Inl rating_doc_Inl)

lemma top_rated_docs_raises_iff:
  "top_rated_docs df = Inl ValueError \<longleftrightarrow> (\<exists>r\<in>set (top_books df). ratings_count r = None)"
proof
  assume "top_rated_docs df = Inl ValueError"
  then show "\<exists>r\<in>set (top_books df). ratings_count r = None"
    by (simp add: top_rated_docs_Inl)
next
  assume m: "\<exists>r\<in>set (top_books df). ratings_count r = None"
  show "top_rated_docs df = Inl ValueError"
  proof (cases "top_rated_docs df")
    case (Inl e)
    then show ?thesis using top_rated_docs_Inl by blast
  next
    case (Inr ds)
    then have "\<forall>r\<in>set (top_books df). ratings_count r \<noteq> None"
      by (rule top_rated_docs_Inr(4))
    with m show ?thesis by blast
  qed
qed


section \<open>The documents of each pass\<close>


lemma book_docs_type: "\<forall>d\<in>set (book_docs df). doc_type d = ''Book'' \<and> doc_count d = None"
  by (simp add: book_docs_def book_doc_def doc_type_def doc_count_def)


lemma author_docs_type: "\<forall>d\<in>set (author_docs df). doc_type d = ''AuthorAggregate''"
  by (simp add: author_docs_def aggDoc_def doc_type_def split_def)

lemma author_docs_count: "map doc_count (author_docs df) = map (\<lambda>g. Some (snd g)) (books_by_author df)"
  by (simp add: author_docs_def aggDoc_def doc_count_def split_def)


lemma decade_docs_type: "\<forall>d\<in>set (decade_docs df). doc_type d = ''DecadeAggregate''"
  by (simp add: decade_docs_def decade_doc_def doc_type_def split_def)

lemma decade_docs_count: "map doc_count (decade_docs df) = map (\<lambda>g. Some (snd g)) (books_by_decade df)"
  by (simp add: decade_docs_def decade_doc_def doc_count_def split_def)

lemma total_count_aggregates:
  "map doc_count ds = map (\<lambda>g. Some (snd g)) gs \<Longrightarrow> total_count ds = sum_list (map snd gs)"
proof -
  assume "map doc_count ds = map (\<lambda>g. Some (snd g)) gs"
  moreover have "[c. Some c \<leftarrow> map (\<lambda>g. Some (snd g)) gs] = map snd gs"
    by (induction gs) simp_all
  ultimately show ?thesis by (simp add: total_count_def)
qed

lemma documents_Inr:
  "documents df = Inr ds \<Longrightarrow>
     \<exists>tds. top_rated_docs df = Inr tds \<and> ds = book_docs df @ author_docs df @ decade_docs df @ tds"
  by (auto simp: documents_def split: sum.splits)

lemma documents_Inl: "documents df = Inl e \<Longrightarrow> top_rated_docs df = Inl e"
  by (auto simp: documents_def split: sum.splits)

text \<open>Synthesis raises exactly when a selected record has no ratings count.\<close>

lemma documents_raises_iff:
  "documents df = Inl ValueError \<longleftrightarrow> (\<exists>r\<in>set (top_books df). ratings_count r = None)"
  by (auto simp: documents_def top_rated_docs_raises_iff [symmetric] split: sum.splits)

lemma documents_by_type:
  assumes "documents df = Inr ds"
  shows "filter (\<lambda>d. doc_type d = ''Book'') ds = book_docs df"
    and "filter (\<lambda>d. doc_type d = ''AuthorAggregate'') ds = author_docs df"
    and "filter (\<lambda>d. doc_type d = ''DecadeAggregate'') ds = decade_docs df"
    and "top_rated_docs df = Inr (filter (\<lambda>d. doc_type d = ''TopRated'') ds)"
proof -
  from assms obtain tds where t: "top_rated_docs df = Inr tds"
    and ds: "ds = book_docs df @ author_docs df @ decade_docs df @ tds"
    using documents_Inr by blast
  have tt: "\<forall>d\<in>set tds. doc_type d = ''TopRated''" using t by (rule top_rated_docs_Inr(2))
  note ty = book_docs_type [of df] author_docs_type [of df] decade_docs_type [of df] tt
  have keep: "\<And>P xs. \<forall>d\<in>set xs. P d \<Longrightarrow> filter P xs = xs" by simp
  have drop: "\<And>P xs. \<forall>d\<in>set xs. \<not> P d \<Longrightarrow> filter P xs = []" by simp
  have b1: "filter (\<lambda>d. doc_type d = ''Book'') (book_docs df) = book_docs df"
    by (rule keep) (use ty in simp)
  have b2: "filter (\<lambda>d. doc_type d = ''Book'') (author_docs df) = []"
    by (rule drop) (use ty in simp)
  have b3: "filter (\<lambda>d. doc_type d = ''Book'') (decade_docs df) = []"
    by (rule drop) (use ty in simp)
  have b4: "filter (\<lambda>d. doc_type d = ''Book'') tds = []"
    by (rule drop) (use ty in simp)
  show "filter (\<lambda>d. doc_type d = ''Book'') ds = book_docs df"
    by (simp only: ds filter_append b1 b2 b3 b4 append_Nil2)
  have a1: "filter (\<lambda>d. doc_type d = ''AuthorAggregate'') (book_docs df) = []"
    by (rule drop) (use ty in simp)
  have a2: "filter (\<lambda>d. doc_type d = ''AuthorAggregate'') (author_docs df) = author_docs df"
    by (rule keep) (use ty in simp)
  have a3: "filter (\<lambda>d. doc_type d = ''AuthorAggregate'') (decade_docs df) = []"
    by (rule drop) (use ty in simp)
  have a4: "filter (\<lambda>d. doc_type d = ''AuthorAggregate'') tds = []"
    by (rule drop) (use ty in simp)
  show "filter (\<lambda>d. doc_type d = ''AuthorAggregate'') ds = author_docs df"
    by (simp only: ds filter_append a1 a2 a3 a4 append_Nil2 append_Nil)
  have d1: "filter (\<lambda>d. doc_type d = ''DecadeAggregate'') (book_docs df) = []"
    by (rule drop) (use ty in simp)
  have d2: "filter (\<lambda>d. doc_type d = ''DecadeAggregate'') (author_docs df) = []"
    by (rule drop) (use ty in simp)
  have d3: "filter (\<lambda>d. doc_type d = ''DecadeAggregate'') (decade_docs df) = decade_docs df"
    by (rule keep) (use ty in simp)
  have d4: "filter (\<lambda>d. doc_type d = ''DecadeAggregate'') tds = []"
    by (rule drop) (use ty in simp)
  show "filter (\<lambda>d. doc_type d = ''DecadeAggregate'') ds = decade_docs df"
    by (simp only: ds filter_append d1 d2 d3 d4 append_Nil2 append_Nil)
  have t1: "filter (\<lambda>d. doc_type d = ''TopRated'') (book_docs df) = []"
    by (rule drop) (use ty in simp)
  have t2: "filter (\<lambda>d. doc_type d = ''TopRated'') (author_docs df) = []"
    by (rule drop) (use ty in simp)
  have t3: "filter (\<lambda>d. doc_type d = ''TopRated'') (decade_docs df) = []"
    by (rule drop) (use ty in simp)
  have t4: "filter (\<lambda>d. doc_type d = ''TopRated'') tds = tds"
    by (rule keep) (use ty in simp)
  show "top_rated_docs df = Inr (filter (\<lambda>d. doc_type d = ''TopRated'') ds)"
    by (simp only: ds filter_append t1 t2 t3 t4 append_Nil2 append_Nil t)
qed






section \<open>Counts of the aggregate passes\<close>

lemma load_Inr:
  "load_jsonl_to_df f cs = Inr df \<Longrightarrow> df = map normalize_row (read_json f) \<and> df \<noteq> []"
  by (cases "\<exists>n. cs = Some n \<and> n \<noteq> 0")
    (auto simp: load_jsonl_to_df_def pd_concat_def read_json_chunked_concat
      split: option.splits if_splits sum.splits)

lemma normalize_row_decade:
  "decade (normalize_row r) = map_option (\<lambda>y. (y div 10) * 10) (publication_year (normalize_row r))"
  by (simp add: normalize_row_def Let_def)

lemma loaded_decade:
  "load_jsonl_to_df f cs = Inr df \<Longrightarrow> r \<in> set df \<Longrightarrow>
     decade r = map_option (\<lambda>y. (y div 10) * 10) (publication_year r)"
  using load_Inr normalize_row_decade by fastforce

lemma somes_filter_map:
  "(\<And>r. r \<in> set df \<Longrightarrow> P r \<longleftrightarrow> col r \<noteq> None) \<Longrightarrow>
     [k. Some k \<leftarrow> map col (filter P df)] = [k. Some k \<leftarrow> map col df]"
  by (induction df) (auto split: option.splits)

lemma books_by_decade_count:
  "(d, c) \<in> set (books_by_decade df) \<Longrightarrow> c = length (filter (\<lambda>r. decade r = Some d) df) \<and> 0 < c"
proof -
  assume "(d, c) \<in> set (books_by_decade df)"
  then have "(d, c) \<in> set (groupby_size (map decade df))"
    by (simp add: books_by_decade_def set_sort_values)
  then have "c = length (filter (\<lambda>x. x = Some d) (map decade df)) \<and> 0 < c"
    by (rule groupby_size_count)
  then have c: "c = length (filter (\<lambda>x. x = Some d) (map decade df))" and p: "0 < c"
    by blast+
  have "length (filter (\<lambda>x. x = Some d) (map decade df)) = length (filter (\<lambda>r. decade r = Some d) df)"
    by (simp add: filter_map comp_def)
  with c have "c = length (filter (\<lambda>r. decade r = Some d) df)" by (rule trans)
  then show ?thesis using p by (rule conjI)
qed

lemma books_by_decade_sum:
  "sum_list (map snd (books_by_decade df)) = length (filter (\<lambda>r. decade r \<noteq> None) df)"
  by (simp add: books_by_decade_def sum_list_map_sort_values groupby_size_sum filter_map comp_def)


lemma df_exploded_Cons: "df_exploded (r # df) = df_exploded [r] @ df_exploded df"
  by (simp add: df_exploded_def explode_def)

lemma df_exploded_single:
  "map snd (filter (\<lambda>p. snd p \<noteq> None) (df_exploded [r])) = map (\<lambda>a. Some (strip a)) (authors r)"
  by (simp add: df_exploded_def explode_def filter_map comp_def)

lemma df_exploded_authors:
  "length (filter (\<lambda>c. c \<noteq> None) (map snd (df_exploded df))) = sum_list (map (\<lambda>r. length (authors r)) df)"
proof (induction df)
  case Nil
  then show ?case by (simp add: df_exploded_def explode_def)
next
  case (Cons r df)
  have "length (filter (\<lambda>c. c \<noteq> None) (map snd (df_exploded [r]))) = length (authors r)"
    by (simp add: df_exploded_def explode_def filter_map comp_def)
  with Cons show ?case by (simp add: df_exploded_Cons [of r df])
qed

lemma df_exploded_length:
  "length (df_exploded df) = sum_list (map (\<lambda>r. max 1 (length (authors r))) df)"
proof (induction df)
  case Nil
  then show ?case by (simp add: df_exploded_def explode_def)
next
  case (Cons r df)
  have "length (df_exploded [r]) = max 1 (length (authors r))"
    by (cases "authors r") (simp_all add: df_exploded_def explode_def)
  with Cons show ?case by (simp add: df_exploded_Cons [of r df])
qed

lemma books_by_author_sum:
  "sum_list (map snd (books_by_author df)) = sum_list (map (\<lambda>r. length (authors r)) df)"
  by (simp only: books_by_author_def sum_list_map_sort_values groupby_size_sum df_exploded_authors)

lemma books_by_author_count:
  "(a, c) \<in> set (books_by_author df) \<Longrightarrow>
     c = length (filter (\<lambda>p. snd p = Some a) (df_exploded df)) \<and> 0 < c"
proof -
  assume "(a, c) \<in> set (books_by_author df)"
  then have "(a, c) \<in> set (groupby_size (map snd (df_exploded df)))"
    by (simp add: books_by_author_def set_sort_values)
  then have "c = length (filter (\<lambda>x. x = Some a) (map snd (df_exploded df))) \<and> 0 < c"
    by (rule groupby_size_count)
  then have c: "c = length (filter (\<lambda>x. x = Some a) (map snd (df_exploded df)))" and p: "0 < c"
    by blast+
  have "length (filter (\<lambda>x. x = Some a) (map snd (df_exploded df))) =
        length (filter (\<lambda>p. snd p = Some a) (df_exploded df))"
    by (simp add: filter_map comp_def)
  with c have "c = length (filter (\<lambda>p. snd p = Some a) (df_exploded df))" by (rule trans)
  then show ?thesis using p by (rule conjI)
qed





lemma loaded_decade_is_float:
  assumes "load_jsonl_to_df f cs = Inr df"
  shows "int_col_is_float (map decade df) \<longleftrightarrow> (\<exists>r\<in>set df. publication_year r = None)"
proof -
  have "\<forall>r\<in>set df. decade r = None \<longleftrightarrow> publication_year r = None"
    using loaded_decade [OF assms] by simp
  moreover have "int_col_is_float (map decade df) \<longleftrightarrow> (\<exists>r\<in>set df. decade r = None)"
    unfolding int_col_is_float_def by force
  ultimately show ?thesis by simp
qed


section \<open>The properties of the specification\<close>


text \<open>
  Claim C1: synthesis completes without raising when a record's publication year, average
  rating or ratings count is missing; the missing fields are \<^verbatim>\<open>None\<close> in the Book
  document's metadata and no pass, the top-rated pass included, crashes.

  The Book pass guards each conversion with \<^verbatim>\<open>pd.notnull\<close> and yields \<^verbatim>\<open>None\<close>. The
  top-rated pass converts without a guard: for the file holding the single record of the
  scenario with its ratings count set to \<^verbatim>\<open>null\<close>, the record is selected,
  \<^verbatim>\<open>int(row["ratings_count"])\<close> is applied to NaN and raises \<^verbatim>\<open>ValueError\<close>, so no
  sequence of documents is produced.
\<close>

theorem top_rated_missing_count_raises:
  "load_jsonl_to_df [Some (scenario_A\<lparr>raw_ratings_count := Null\<rparr>)] (Some 10000) =
     Inr [normalize_row (scenario_A\<lparr>raw_ratings_count := Null\<rparr>)] \<and>
   map metadata (book_docs [normalize_row (scenario_A\<lparr>raw_ratings_count := Null\<rparr>)]) =
     [Book 1 ''A'' [''X''] (Some 1990) (Some 1990) (Some (9 / 2)) None ''''] \<and>
   top_rated_docs [normalize_row (scenario_A\<lparr>raw_ratings_count := Null\<rparr>)] = Inl ValueError \<and>
   documents [normalize_row (scenario_A\<lparr>raw_ratings_count := Null\<rparr>)] = Inl ValueError"
  by code_simp














text \<open>
  Claim C4: for the two records of the scenario, synthesis yields exactly two Book
  documents, the AuthorAggregate documents \<^verbatim>\<open>Author-X\<close> (Count 2) and \<^verbatim>\<open>Author-Y\<close>
  (Count 1), one DecadeAggregate document \<^verbatim>\<open>Decade-1990\<close> (Count 2), and the TopRated
  documents of record 1 and then record 2. The theorem gives the whole sequence, loaded
  with the batch size of the script.
\<close>

theorem scenario_synthesis:
  "load_jsonl_to_df scenario (Some 10000) = Inr (map normalize_row [scenario_A, scenario_B]) \<and>
   documents (map normalize_row [scenario_A, scenario_B]) =
     Inr [\<lparr> page_content = ''Book: A by X. Published in 1990, average rating 4.5 from 10 ratings.'',
            metadata = Book 1 ''A'' [''X''] (Some 1990) (Some 1990) (Some (9 / 2)) (Some 10) '''',
            doc_id = ''1'' \<rparr>,
          \<lparr> page_content = ''Book: B by X, Y. Published in 1990, average rating 3.0 from 5 ratings.'',
            metadata = Book 2 ''B'' [''X'', ''Y''] (Some 1990) (Some 1990) (Some 3) (Some 5) '''',
            doc_id = ''2'' \<rparr>,
          \<lparr> page_content = ''Author X has 2 books in the dataset.'',
            metadata = AuthorAggregate ''X'' 2, doc_id = ''Author-X'' \<rparr>,
          \<lparr> page_content = ''Author Y has 1 books in the dataset.'',
            metadata = AuthorAggregate ''Y'' 1, doc_id = ''Author-Y'' \<rparr>,
          \<lparr> page_content = ''In the 1990s, 2 books were published.'',
            metadata = DecadeAggregate 1990 2, doc_id = ''Decade-1990'' \<rparr>,
          \<lparr> page_content = ''Highly rated book: A by X, average rating 4.5 from 10 ratings.'',
            metadata = TopRated ''A'' [''X''] (Float (9 / 2)) 10, doc_id = ''TopRated-1'' \<rparr>,
          \<lparr> page_content = ''Highly rated book: B by X, Y, average rating 3.0 from 5 ratings.'',
            metadata = TopRated ''B'' [''X'', ''Y''] (Float 3) 5, doc_id = ''TopRated-2'' \<rparr>]"
  by code_simp


text \<open>
  Claim C5: in a loaded frame, a record has a missing decade exactly when its publication
  year is missing; such a record contributes to no DecadeAggregate group (removing these
  records leaves the groups unchanged, and the Count of a group is the number of records
  with that decade); and the Count values of all DecadeAggregate documents sum to the number
  of records whose publication year is present. The sum is stated for the documents of the
  decade pass and for the DecadeAggregate documents of the whole output.
\<close>

theorem decade_counts:
  assumes ld: "load_jsonl_to_df f cs = Inr df"
  shows "(\<forall>r\<in>set df. publication_year r = None \<longleftrightarrow> decade r = None) \<and>
         books_by_decade df = books_by_decade (filter (\<lambda>r. publication_year r \<noteq> None) df) \<and>
         (\<forall>(d, c)\<in>set (books_by_decade df). c = length (filter (\<lambda>r. decade r = Some d) df)) \<and>
         map doc_count (decade_docs df) = map (\<lambda>g. Some (snd g)) (books_by_decade df) \<and>
         total_count (decade_docs df) = length (filter (\<lambda>r. publication_year r \<noteq> None) df) \<and>
         (\<forall>ds. documents df = Inr ds \<longrightarrow>
            total_count (filter (\<lambda>d. doc_type d = ''DecadeAggregate'') ds) =
              length (filter (\<lambda>r. publication_year r \<noteq> None) df))"
proof -
  have 1: "\<forall>r\<in>set df. publication_year r = None \<longleftrightarrow> decade r = None"
    using loaded_decade [OF ld] by simp
  then have "[k. Some k \<leftarrow> map decade (filter (\<lambda>r. publication_year r \<noteq> None) df)] =
             [k. Some k \<leftarrow> map decade df]"
    by (intro somes_filter_map) simp
  then have 2: "books_by_decade df = books_by_decade (filter (\<lambda>r. publication_year r \<noteq> None) df)"
    by (simp add: books_by_decade_def groupby_size_def)
  have 3: "\<forall>(d, c)\<in>set (books_by_decade df). c = length (filter (\<lambda>r. decade r = Some d) df)"
    using books_by_decade_count by blast
  have 4: "map doc_count (decade_docs df) = map (\<lambda>g. Some (snd g)) (books_by_decade df)"
    by (rule decade_docs_count)
  have "filter (\<lambda>r. decade r \<noteq> None) df = filter (\<lambda>r. publication_year r \<noteq> None) df"
    using 1 by (intro filter_cong) simp_all
  then have 5: "total_count (decade_docs df) = length (filter (\<lambda>r. publication_year r \<noteq> None) df)"
    by (simp add: total_count_aggregates [OF 4] books_by_decade_sum)
  have 6: "\<forall>ds. documents df = Inr ds \<longrightarrow>
            total_count (filter (\<lambda>d. doc_type d = ''DecadeAggregate'') ds) =
              length (filter (\<lambda>r. publication_year r \<noteq> None) df)"
    using 5 by (simp add: documents_by_type(3))
  from 1 2 3 4 5 6 show ?thesis by blast
qed


text \<open>
  Three records with the years 1990, missing and 2005: two groups with one record each.
\<close>

theorem decade_counts_witness:
  "load_jsonl_to_df
     [Some scenario_A, Some (scenario_B\<lparr>raw_publication_year := Null\<rparr>),
      Some (scenario_B\<lparr>raw_id := 3, raw_publication_year := Num 2005\<rparr>)] None =
     Inr (map normalize_row
       [scenario_A, scenario_B\<lparr>raw_publication_year := Null\<rparr>,
        scenario_B\<lparr>raw_id := 3, raw_publication_year := Num 2005\<rparr>]) \<and>
   books_by_decade (map normalize_row
       [scenario_A, scenario_B\<lparr>raw_publication_year := Null\<rparr>,
        scenario_B\<lparr>raw_id := 3, raw_publication_year := Num 2005\<rparr>]) = [(1990, 1), (2000, 1)] \<and>
   total_count (decade_docs (map normalize_row
       [scenario_A, scenario_B\<lparr>raw_publication_year := Null\<rparr>,
        scenario_B\<lparr>raw_id := 3, raw_publication_year := Num 2005\<rparr>])) = 2"
proof -
  let ?D = "map normalize_row
       [scenario_A, scenario_B\<lparr>raw_publication_year := Null\<rparr>,
        scenario_B\<lparr>raw_id := 3, raw_publication_year := Num 2005\<rparr>]"
  have l: "load_jsonl_to_df
     [Some scenario_A, Some (scenario_B\<lparr>raw_publication_year := Null\<rparr>),
      Some (scenario_B\<lparr>raw_id := 3, raw_publication_year := Num 2005\<rparr>)] None = Inr ?D"
    by code_simp
  have b: "books_by_decade ?D = [(1990, 1), (2000, 1)]" by code_simp
  have n: "length (filter (\<lambda>r. publication_year r \<noteq> None) ?D) = 2" by code_simp
  from decade_counts [OF l]
  have "total_count (decade_docs ?D) = length (filter (\<lambda>r. publication_year r \<noteq> None) ?D)"
    by (rule conjunct2 [THEN conjunct2, THEN conjunct2, THEN conjunct2, THEN conjunct1])
  then have "total_count (decade_docs ?D) = 2" using n by (rule trans)
  with l b show ?thesis by blast
qed


text \<open>
  Claim C6, as the code has it: the exploded frame is the concatenation of the rows of each
  record; a record with N authors contributes exactly N rows that carry an author, the
  trimmed names in order, and exactly one Book document; the Count of an author is the
  number of exploded rows carrying that name; and the Count values of all AuthorAggregate
  documents sum to the sum of the per-record author counts, which is the number of exploded
  rows that carry an author. It is the total number of exploded rows when no record has an
  empty author list.
\<close>

theorem author_counts:
  "df_exploded df = concat (map (\<lambda>r. df_exploded [r]) df) \<and>
   (\<forall>r. map snd (filter (\<lambda>p. snd p \<noteq> None) (df_exploded [r])) = map (\<lambda>a. Some (strip a)) (authors r)) \<and>
   (\<forall>(a, c)\<in>set (books_by_author df). c = length (filter (\<lambda>p. snd p = Some a) (df_exploded df))) \<and>
   length (book_docs df) = length df \<and>
   map doc_count (author_docs df) = map (\<lambda>g. Some (snd g)) (books_by_author df) \<and>
   total_count (author_docs df) = sum_list (map (\<lambda>r. length (authors r)) df) \<and>
   total_count (author_docs df) = length (filter (\<lambda>p. snd p \<noteq> None) (df_exploded df)) \<and>
   ((\<forall>r\<in>set df. authors r \<noteq> []) \<longrightarrow> total_count (author_docs df) = length (df_exploded df)) \<and>
   (\<forall>ds. documents df = Inr ds \<longrightarrow>
      length (filter (\<lambda>d. doc_type d = ''Book'') ds) = length df \<and>
      total_count (filter (\<lambda>d. doc_type d = ''AuthorAggregate'') ds) =
        sum_list (map (\<lambda>r. length (authors r)) df))"
proof -
  have 1: "df_exploded df = concat (map (\<lambda>r. df_exploded [r]) df)"
    by (simp add: df_exploded_def explode_def map_concat comp_def)
  have 2: "\<forall>r. map snd (filter (\<lambda>p. snd p \<noteq> None) (df_exploded [r])) = map (\<lambda>a. Some (strip a)) (authors r)"
    using df_exploded_single by blast
  have 3: "\<forall>(a, c)\<in>set (books_by_author df). c = length (filter (\<lambda>p. snd p = Some a) (df_exploded df))"
    using books_by_author_count by blast
  have 4: "length (book_docs df) = length df" by (simp add: book_docs_def)
  have 5: "map doc_count (author_docs df) = map (\<lambda>g. Some (snd g)) (books_by_author df)"
    by (rule author_docs_count)
  have 6: "total_count (author_docs df) = sum_list (map (\<lambda>r. length (authors r)) df)"
    by (simp add: total_count_aggregates [OF 5] books_by_author_sum)
  have 7: "total_count (author_docs df) = length (filter (\<lambda>p. snd p \<noteq> None) (df_exploded df))"
    using df_exploded_authors [of df] by (simp add: 6 filter_map comp_def)
  have 8: "(\<forall>r\<in>set df. authors r \<noteq> []) \<longrightarrow> total_count (author_docs df) = length (df_exploded df)"
  proof
    assume ne: "\<forall>r\<in>set df. authors r \<noteq> []"
    have "map (\<lambda>r. max 1 (length (authors r))) df = map (\<lambda>r. length (authors r)) df"
      by (rule map_cong) (use ne in \<open>auto simp: max_def Suc_le_eq\<close>)
    then show "total_count (author_docs df) = length (df_exploded df)"
      by (simp only: 6 df_exploded_length)
  qed
  have 9: "\<forall>ds. documents df = Inr ds \<longrightarrow>
      length (filter (\<lambda>d. doc_type d = ''Book'') ds) = length df \<and>
      total_count (filter (\<lambda>d. doc_type d = ''AuthorAggregate'') ds) =
        sum_list (map (\<lambda>r. length (authors r)) df)"
    using 4 6 by (simp add: documents_by_type(1,2))
  from 1 2 3 4 5 6 7 8 9 show ?thesis by blast
qed


text \<open>
  A record with an empty author list explodes to one row with a missing author, which the
  grouping drops: one exploded row, and a Count sum of zero.
\<close>

theorem empty_author_list_counterexample:
  "length (df_exploded [normalize_row (scenario_A\<lparr>raw_authors := []\<rparr>)]) = 1 \<and>
   total_count (author_docs [normalize_row (scenario_A\<lparr>raw_authors := []\<rparr>)]) = 0"
  by code_simp


text \<open>The scenario: three exploded rows, and Counts 2 and 1.\<close>

theorem author_counts_witness:
  "map authors (map normalize_row [scenario_A, scenario_B]) = [[''X''], [''X'', ''Y'']] \<and>
   length (df_exploded (map normalize_row [scenario_A, scenario_B])) = 3 \<and>
   total_count (author_docs (map normalize_row [scenario_A, scenario_B])) = 3"
proof -
  let ?D = "map normalize_row [scenario_A, scenario_B]"
  have h: "\<forall>r\<in>set ?D. authors r \<noteq> []" by code_simp
  have n: "length (df_exploded ?D) = 3" by code_simp
  from author_counts [of ?D]
  have "(\<forall>r\<in>set ?D. authors r \<noteq> []) \<longrightarrow> total_count (author_docs ?D) = length (df_exploded ?D)"
    by (rule conjunct2 [THEN conjunct2, THEN conjunct2, THEN conjunct2, THEN conjunct2,
          THEN conjunct2, THEN conjunct2, THEN conjunct1])
  then have "total_count (author_docs ?D) = length (df_exploded ?D)" using h by (rule mp)
  then have "total_count (author_docs ?D) = 3" using n by (rule trans)
  moreover have "map authors ?D = [[''X''], [''X'', ''Y'']]" by code_simp
  ultimately show ?thesis using n by blast
qed










text \<open>
  Claim C9: the DecadeAggregate identifier is \<^verbatim>\<open>Decade-\<close> followed by the rendered
  value of the decade column. In a loaded frame where every record has a publication year
  the decade renders as an integer; where any record lacks it the column is float64 and
  every identifier carries the suffix \<^verbatim>\<open>.0\<close>. The content always renders the decade
  as an integer (and, read from the same float64 row, the Count with the suffix
  \<^verbatim>\<open>.0\<close> in the second case); the metadata holds the integer decade and Count.
\<close>

theorem decade_identifier_rendering:
  assumes ld: "load_jsonl_to_df f cs = Inr df"
  shows "((\<forall>r\<in>set df. publication_year r \<noteq> None) \<longrightarrow>
            map doc_id (decade_docs df) =
              map (\<lambda>(d, c). ''Decade-'' @ str_int d) (books_by_decade df)) \<and>
         ((\<exists>r\<in>set df. publication_year r = None) \<longrightarrow>
            map doc_id (decade_docs df) =
              map (\<lambda>(d, c). ''Decade-'' @ str_int d @ ''.0'') (books_by_decade df)) \<and>
         map page_content (decade_docs df) =
           map (\<lambda>(d, c). ''In the '' @ str_int d @ ''s, '' @
                  (if \<exists>r\<in>set df. publication_year r = None then str_nat c @ ''.0'' else str_nat c) @
                  '' books were published.'') (books_by_decade df) \<and>
         map metadata (decade_docs df) = map (\<lambda>(d, c). DecadeAggregate d c) (books_by_decade df)"
proof -
  note fl = loaded_decade_is_float [OF ld]
  have 1: "(\<forall>r\<in>set df. publication_year r \<noteq> None) \<longrightarrow>
            map doc_id (decade_docs df) =
              map (\<lambda>(d, c). ''Decade-'' @ str_int d) (books_by_decade df)"
    using fl by (auto simp: decade_docs_def decade_doc_def split_def)
  have 2: "(\<exists>r\<in>set df. publication_year r = None) \<longrightarrow>
            map doc_id (decade_docs df) =
              map (\<lambda>(d, c). ''Decade-'' @ str_int d @ ''.0'') (books_by_decade df)"
    using fl by (auto simp: decade_docs_def decade_doc_def split_def str_float_of_int)
  have 3: "map page_content (decade_docs df) =
           map (\<lambda>(d, c). ''In the '' @ str_int d @ ''s, '' @
                  (if \<exists>r\<in>set df. publication_year r = None then str_nat c @ ''.0'' else str_nat c) @
                  '' books were published.'') (books_by_decade df)"
    using fl by (auto simp: decade_docs_def decade_doc_def split_def str_float_of_nat)
  have 4: "map metadata (decade_docs df) = map (\<lambda>(d, c). DecadeAggregate d c) (books_by_decade df)"
    by (simp add: decade_docs_def decade_doc_def split_def)
  from 1 2 3 4 show ?thesis by blast
qed


text \<open>
  The scenario gives \<^verbatim>\<open>Decade-1990\<close>; with the year of the second record missing it
  gives \<^verbatim>\<open>Decade-1990.0\<close>.
\<close>

theorem decade_identifier_rendering_witness:
  "load_jsonl_to_df [Some scenario_A, Some scenario_B] None =
     Inr (map normalize_row [scenario_A, scenario_B]) \<and>
   map publication_year (map normalize_row [scenario_A, scenario_B]) = [Some 1990, Some 1990] \<and>
   map doc_id (decade_docs (map normalize_row [scenario_A, scenario_B])) = [''Decade-1990''] \<and>
   load_jsonl_to_df [Some scenario_A, Some (scenario_B\<lparr>raw_publication_year := Null\<rparr>)] None =
     Inr (map normalize_row [scenario_A, scenario_B\<lparr>raw_publication_year := Null\<rparr>]) \<and>
   map publication_year (map normalize_row [scenario_A, scenario_B\<lparr>raw_publication_year := Null\<rparr>]) =
     [Some 1990, None] \<and>
   map doc_id (decade_docs (map normalize_row [scenario_A, scenario_B\<lparr>raw_publication_year := Null\<rparr>])) =
     [''Decade-1990.0''] \<and>
   map page_content (decade_docs (map normalize_row [scenario_A, scenario_B\<lparr>raw_publication_year := Null\<rparr>])) =
     [''In the 1990s, 1.0 books were published.'']"
proof -
  let ?D1 = "map normalize_row [scenario_A, scenario_B]"
  let ?D2 = "map normalize_row [scenario_A, scenario_B\<lparr>raw_publication_year := Null\<rparr>]"
  have l1: "load_jsonl_to_df [Some scenario_A, Some scenario_B] None = Inr ?D1" by code_simp
  have l2: "load_jsonl_to_df [Some scenario_A, Some (scenario_B\<lparr>raw_publication_year := Null\<rparr>)] None = Inr ?D2"
    by code_simp
  have h1: "\<forall>r\<in>set ?D1. publication_year r \<noteq> None" by code_simp
  have h2: "\<exists>r\<in>set ?D2. publication_year r = None" by code_simp
  have y1: "map publication_year ?D1 = [Some 1990, Some 1990]" by code_simp
  have y2: "map publication_year ?D2 = [Some 1990, None]" by code_simp
  have g1: "map (\<lambda>(d, c). ''Decade-'' @ str_int d) (books_by_decade ?D1) = [''Decade-1990'']"
    by code_simp
  have g2: "map (\<lambda>(d, c). ''Decade-'' @ str_int d @ ''.0'') (books_by_decade ?D2) = [''Decade-1990.0'']"
    by code_simp
  have g3: "map (\<lambda>(d, c). ''In the '' @ str_int d @ ''s, '' @ str_nat c @ ''.0'' @
                  '' books were published.'') (books_by_decade ?D2) =
            [''In the 1990s, 1.0 books were published.'']"
    by code_simp
  note t1 = decade_identifier_rendering [OF l1]
  note t2 = decade_identifier_rendering [OF l2]
  from t1 have "(\<forall>r\<in>set ?D1. publication_year r \<noteq> None) \<longrightarrow>
      map doc_id (decade_docs ?D1) = map (\<lambda>(d, c). ''Decade-'' @ str_int d) (books_by_decade ?D1)"
    by (rule conjunct1)
  then have "map doc_id (decade_docs ?D1) = map (\<lambda>(d, c). ''Decade-'' @ str_int d) (books_by_decade ?D1)"
    using h1 by (rule mp)
  then have a: "map doc_id (decade_docs ?D1) = [''Decade-1990'']"
    using g1 by (rule trans)
  from t2 have "(\<exists>r\<in>set ?D2. publication_year r = None) \<longrightarrow>
      map doc_id (decade_docs ?D2) = map (\<lambda>(d, c). ''Decade-'' @ str_int d @ ''.0'') (books_by_decade ?D2)"
    by (rule conjunct2 [THEN conjunct1])
  then have "map doc_id (decade_docs ?D2) = map (\<lambda>(d, c). ''Decade-'' @ str_int d @ ''.0'') (books_by_decade ?D2)"
    using h2 by (rule mp)
  then have b: "map doc_id (decade_docs ?D2) = [''Decade-1990.0'']"
    using g2 by (rule trans)
  from t2 have "map page_content (decade_docs ?D2) =
           map (\<lambda>(d, c). ''In the '' @ str_int d @ ''s, '' @
                  (if \<exists>r\<in>set ?D2. publication_year r = None then str_nat c @ ''.0'' else str_nat c) @
                  '' books were published.'') (books_by_decade ?D2)"
    by (rule conjunct2 [THEN conjunct2, THEN conjunct1])
  then have "map page_content (decade_docs ?D2) =
     map (\<lambda>(d, c). ''In the '' @ str_int d @ ''s, '' @ str_nat c @ ''.0'' @
                  '' books were published.'') (books_by_decade ?D2)"
    by (simp only: h2 if_True append_assoc)
  then have c: "map page_content (decade_docs ?D2) = [''In the 1990s, 1.0 books were published.'']"
    using g3 by (rule trans)
  from l1 l2 y1 y2 a b c show ?thesis by blast
qed


text \<open>
  Claim C10: the content of the Book document of every record has all its clauses, whatever
  is missing, and a missing publication year, average rating or ratings count renders as the
  text \<^verbatim>\<open>nan\<close>.
\<close>

theorem book_content_missing_values:
  assumes "r \<in> set df"
  shows "book_doc df r \<in> set (book_docs df) \<and>
         page_content (book_doc df r) =
           ''Book: '' @ title r @ '' by '' @ join '', '' (authors r) @ ''. Published in '' @
           year_str df r @ '', average rating '' @ rating_str df r @ '' from '' @
           count_str df r @ '' ratings.'' \<and>
         (publication_year r = None \<longrightarrow> year_str df r = ''nan'') \<and>
         (average_rating r = None \<longrightarrow> rating_str df r = ''nan'') \<and>
         (ratings_count r = None \<longrightarrow> count_str df r = ''nan'')"
  using assms
  by (simp add: book_docs_def book_doc_def year_str_def rating_str_def count_str_def
      str_int_cell_def str_rat_cell_def)


text \<open>A record without a year and with an unreadable ratings count.\<close>

theorem book_content_missing_values_witness:
  "normalize_row (scenario_B\<lparr>raw_publication_year := Null, raw_ratings_count := Unparsable ''many''\<rparr>)
     \<in> set (map normalize_row [scenario_A,
          scenario_B\<lparr>raw_publication_year := Null, raw_ratings_count := Unparsable ''many''\<rparr>]) \<and>
   publication_year (normalize_row
     (scenario_B\<lparr>raw_publication_year := Null, raw_ratings_count := Unparsable ''many''\<rparr>)) = None \<and>
   ratings_count (normalize_row
     (scenario_B\<lparr>raw_publication_year := Null, raw_ratings_count := Unparsable ''many''\<rparr>)) = None \<and>
   page_content (book_doc
     (map normalize_row [scenario_A,
        scenario_B\<lparr>raw_publication_year := Null, raw_ratings_count := Unparsable ''many''\<rparr>])
     (normalize_row (scenario_B\<lparr>raw_publication_year := Null, raw_ratings_count := Unparsable ''many''\<rparr>))) =
     ''Book: B by X, Y. Published in nan, average rating 3.0 from nan ratings.''"
proof -
  let ?r = "normalize_row (scenario_B\<lparr>raw_publication_year := Null, raw_ratings_count := Unparsable ''many''\<rparr>)"
  let ?D = "map normalize_row [scenario_A,
          scenario_B\<lparr>raw_publication_year := Null, raw_ratings_count := Unparsable ''many''\<rparr>]"
  have m: "?r \<in> set ?D" by simp
  have y: "publication_year ?r = None" and c: "ratings_count ?r = None"
    by (simp_all add: normalize_row_def)
  have t: "''Book: '' @ title ?r @ '' by '' @ join '', '' (authors ?r) @ ''. Published in '' @
           ''nan'' @ '', average rating '' @ rating_str ?D ?r @ '' from '' @
           ''nan'' @ '' ratings.'' = ''Book: B by X, Y. Published in nan, average rating 3.0 from nan ratings.''"
    by code_simp
  from book_content_missing_values [OF m] y c t m show ?thesis by simp
qed

end
